theory Spec2Isabelle
  imports Main
begin

section \<open>The virtual modem of vmodem.go\<close>

text \<open>
  A shallow embedding of \<^verbatim>\<open>src/vmodem.go\<close>. Bytes are \<^typ>\<open>char\<close> (eight bits),
  Go strings are \<^typ>\<open>string\<close>. Every method that the source runs with the modem lock
  held is a function from the modem state to the new state; a panic is the left summand
  of the result. The mutex itself is not part of the state: each function below is one
  critical section, and the points between two calls are the points where the lock is
  free.
\<close>

subsection \<open>Status, result codes, fatal failures\<close>

datatype ModemStatus =
    StatusIdle
  | StatusDialing
  | StatusConnected
  | StatusConnectedCmd
  | StatusRinging
  | StatusClosed

fun String :: "ModemStatus \<Rightarrow> string" where
  "String StatusIdle = ''Idle''"
| "String StatusDialing = ''Dialing''"
| "String StatusConnected = ''Connected''"
| "String StatusConnectedCmd = ''ConnectedCmd''"
| "String StatusRinging = ''Ringing''"
| "String StatusClosed = ''Closed''"

datatype CmdReturn =
    RetCodeOk
  | RetCodeError
  | RetCodeSilent
  | RetCodeConnect
  | RetCodeNoCarrier
  | RetCodeNoDialtone
  | RetCodeBusy
  | RetCodeNoAnswer
  | RetCodeSkip

text \<open>
  The values a call can fail with. \<open>ErrInvalidStateTransition\<close> is the value
  \<^verbatim>\<open>setStatus\<close> panics with; \<open>NilDereference\<close> is the run-time panic of calling
  \<^verbatim>\<open>Close\<close> on a nil \<^verbatim>\<open>io.ReadWriteCloser\<close>; the other two are returned as
  ordinary errors.
\<close>

datatype error =
    ErrConfigRequired
  | ErrModemBusy
  | ErrInvalidStateTransition
  | NilDereference

subsection \<open>The modem state\<close>

text \<open>
  Streams are handles (\<^typ>\<open>nat\<close>); a nil interface value is \<open>None\<close>. What the modem
  does to a stream is logged in the state: \<open>ttyOut\<close> is every byte handed to the
  terminal's \<^verbatim>\<open>Write\<close>, \<open>connOut\<close> every write to a connection, \<open>connClosed\<close>
  the connections on which \<^verbatim>\<open>Close\<close> was called, \<open>stdout\<close> the lines of
  \<^verbatim>\<open>fmt.Printf\<close>.

  Cancellation scopes: the status context \<^verbatim>\<open>stCtx\<close> is a counter, a fresh one for
  every transition; \<open>stCancelled\<close> holds the ones whose cancel function ran. The first
  status context (number 0) is derived from the caller's context, the later ones from
  the modem's own context \<^verbatim>\<open>m.ctx\<close>, which \<^verbatim>\<open>m.cancel()\<close> ends
  (\<open>ctxCancelled\<close>). \<open>parentDone\<close> says that the context given to \<^verbatim>\<open>NewModem\<close> has
  ended; no function of the modem changes it.

  \<open>dialTasks\<close> are the goroutines started by \<^verbatim>\<open>go m.processDialing(m.stCtx, number)\<close>,
  each with the context and the number it was started with. The two capabilities of the
  configuration are immutable: of \<^verbatim>\<open>outgoingCall\<close> the state keeps whether it is
  set, and the command hook is a parameter of the functions that consult it. A hook
  gets the modem, on which it may do anything, and the sub-command; it is taken to
  return, with its result and the modem as it leaves it.
\<close>

record Modem =
  parentDone :: bool
  ctxCancelled :: bool
  st :: ModemStatus
  stCtx :: nat
  stCancelled :: "nat list"
  tty :: nat
  ttyOut :: string
  ttyClosed :: bool
  conn :: "nat option"
  connOut :: "(nat \<times> string) list"
  connClosed :: "nat list"
  hasOutgoingCall :: bool
  connectStr :: string
  sregs :: "nat \<rightharpoonup> nat"
  echo :: bool
  shortForm :: bool
  dialTasks :: "(nat \<times> string) list"
  stdout :: "string list"

type_synonym CommandHookType =
  "Modem \<Rightarrow> string \<Rightarrow> string \<Rightarrow> bool \<Rightarrow> bool \<Rightarrow> string \<Rightarrow> CmdReturn \<times> Modem"

record ModemConfig =
  OutgoingCall :: bool
  CommandHook :: "CommandHookType option"
  TTY :: "nat option"
  ConnectStr :: string

text \<open>\<^verbatim>\<open>ctx.Err() != nil\<close> for the modem's context and for a status context.\<close>

definition modemCtxErr :: "Modem \<Rightarrow> bool" where
  "modemCtxErr m = (ctxCancelled m \<or> parentDone m)"

definition ctxErr :: "Modem \<Rightarrow> nat \<Rightarrow> bool" where
  "ctxErr m c = (c \<in> set (stCancelled m) \<or> parentDone m \<or> (ctxCancelled m \<and> 0 < c))"

subsection \<open>Bytes and library functions\<close>

abbreviation CR :: char where "CR \<equiv> CHR 0x0D"
abbreviation LF :: char where "LF \<equiv> CHR 0x0A"

definition byteVal :: "char \<Rightarrow> nat" where
  "byteVal b = of_char b"

definition checkValidCmdChar :: "char \<Rightarrow> bool" where
  "checkValidCmdChar b =
     ((byteVal (CHR ''A'') \<le> byteVal b \<and> byteVal b \<le> byteVal (CHR ''Z'')) \<or>
      (byteVal (CHR ''a'') \<le> byteVal b \<and> byteVal b \<le> byteVal (CHR ''z'')))"

definition checkValidNumChar :: "char \<Rightarrow> bool" where
  "checkValidNumChar b =
     (byteVal (CHR ''0'') \<le> byteVal b \<and> byteVal b \<le> byteVal (CHR ''9''))"

text \<open>
  \<^verbatim>\<open>strconv.Atoi\<close> with its error dropped, as every call of the source does
  (\<^verbatim>\<open>n, _ := strconv.Atoi(s)\<close>), for a 64-bit \<^verbatim>\<open>int\<close>: an optional sign and
  decimal digits; 0 on a syntax error (also the empty string), the nearest bound when
  the number is out of range.
\<close>

fun decVal :: "int \<Rightarrow> string \<Rightarrow> int" where
  "decVal n [] = n"
| "decVal n (c # cs) = decVal (n * 10 + (int (byteVal c) - 48)) cs"

definition Atoi :: "string \<Rightarrow> int" where
  "Atoi s =
     (case s of
        [] \<Rightarrow> 0
      | c # cs \<Rightarrow>
          (let ds = (if c = CHR ''-'' \<or> c = CHR ''+'' then cs else s) in
           if ds \<noteq> [] \<and> list_all checkValidNumChar ds then
             (if c = CHR ''-'' then max (- (2 ^ 63)) (- decVal 0 ds)
              else min (2 ^ 63 - 1) (decVal 0 ds))
           else 0))"

text \<open>\<^verbatim>\<open>fmt.Sprintf("%03d", v)\<close> for a byte \<open>v\<close>: decimal, padded with zeros to three.\<close>

definition digitChar :: "nat \<Rightarrow> char" where
  "digitChar d = char_of (48 + d)"

fun decimal :: "nat \<Rightarrow> string" where
  "decimal n = (if n < 10 then [digitChar n] else decimal (n div 10) @ [digitChar (n mod 10)])"

declare decimal.simps [simp del]

definition fmt03d :: "nat \<Rightarrow> string" where
  "fmt03d v = replicate (3 - length (decimal v)) (CHR ''0'') @ decimal v"

text \<open>
  \<^verbatim>\<open>string(b)\<close> of a byte is the UTF-8 encoding of the code point \<open>b\<close>: the byte
  itself below 128, two bytes from 128 on.
\<close>

definition stringOfByte :: "char \<Rightarrow> string" where
  "stringOfByte b =
     (if byteVal b < 128 then [b]
      else [char_of (192 + byteVal b div 64), char_of (128 + byteVal b mod 64)])"

text \<open>
  \<^verbatim>\<open>strings.ToUpper\<close> on the command name, which the tokenizer builds from ASCII
  letters and the marks \<open>+ # &\<close> only: the ASCII letters are raised.
\<close>

definition upperByte :: "char \<Rightarrow> char" where
  "upperByte b =
     (if byteVal (CHR ''a'') \<le> byteVal b \<and> byteVal b \<le> byteVal (CHR ''z'')
      then char_of (byteVal b - 32) else b)"

definition ToUpper :: "string \<Rightarrow> string" where
  "ToUpper s = map upperByte s"

text \<open>\<^verbatim>\<open>strconv.IsPrint(rune(b))\<close> on the Latin-1 range.\<close>

definition IsPrint :: "char \<Rightarrow> bool" where
  "IsPrint b =
     ((32 \<le> byteVal b \<and> byteVal b \<le> 126) \<or>
      (161 \<le> byteVal b \<and> byteVal b \<le> 255 \<and> byteVal b \<noteq> 173))"

subsection \<open>Terminal output\<close>

definition ttyWriteStr :: "string \<Rightarrow> Modem \<Rightarrow> Modem" where
  "ttyWriteStr s m = m\<lparr>ttyOut := ttyOut m @ s\<rparr>"

definition cr :: "Modem \<Rightarrow> string" where
  "cr m = (if shortForm m then [CR] else [CR, LF])"

fun retStrShort :: "CmdReturn \<Rightarrow> string" where
  "retStrShort RetCodeOk = ''0''"
| "retStrShort RetCodeError = ''4''"
| "retStrShort RetCodeConnect = ''1''"
| "retStrShort RetCodeNoCarrier = ''3''"
| "retStrShort RetCodeNoDialtone = ''6''"
| "retStrShort RetCodeBusy = ''7''"
| "retStrShort RetCodeNoAnswer = ''8''"
| "retStrShort _ = ''''"

fun retStrLong :: "string \<Rightarrow> CmdReturn \<Rightarrow> string" where
  "retStrLong cs RetCodeOk = ''OK''"
| "retStrLong cs RetCodeError = ''ERROR''"
| "retStrLong cs RetCodeConnect = cs"
| "retStrLong cs RetCodeNoCarrier = ''NO CARRIER''"
| "retStrLong cs RetCodeNoDialtone = ''NO DIALTONE''"
| "retStrLong cs RetCodeBusy = ''BUSY''"
| "retStrLong cs RetCodeNoAnswer = ''NO ANSWER''"
| "retStrLong cs _ = ''''"

definition printRetCode :: "CmdReturn \<Rightarrow> Modem \<Rightarrow> Modem" where
  "printRetCode ret m =
     (if ret = RetCodeSilent then m
      else
        (let retStr = (if shortForm m then retStrShort ret else retStrLong (connectStr m) ret)
         in ttyWriteStr (cr m @ retStr @ cr m) m))"

subsection \<open>The status state machine\<close>

text \<open>The \<^verbatim>\<open>switch status\<close> of \<^verbatim>\<open>setStatus\<close>: the checks and the side effects.\<close>

definition statusSwitch :: "ModemStatus \<Rightarrow> ModemStatus \<Rightarrow> Modem \<Rightarrow> error + Modem" where
  "statusSwitch status prevStatus m =
     (case status of
        StatusIdle \<Rightarrow>
          (let m1 = (if prevStatus = StatusConnected \<or> prevStatus = StatusConnectedCmd
                        \<or> prevStatus = StatusDialing
                     then printRetCode RetCodeNoCarrier m else m)
           in if prevStatus = StatusConnected \<or> prevStatus = StatusConnectedCmd
                 \<or> prevStatus = StatusRinging
              then (case conn m1 of
                      None \<Rightarrow> Inl NilDereference
                    | Some c \<Rightarrow> Inr (m1\<lparr>conn := None, connClosed := connClosed m1 @ [c]\<rparr>))
              else Inr m1)
      | StatusConnected \<Rightarrow>
          (if prevStatus \<noteq> StatusDialing \<and> prevStatus \<noteq> StatusRinging
              \<and> prevStatus \<noteq> StatusConnectedCmd
           then Inl ErrInvalidStateTransition
           else Inr (printRetCode RetCodeConnect m))
      | StatusConnectedCmd \<Rightarrow>
          (if prevStatus \<noteq> StatusConnected then Inl ErrInvalidStateTransition
           else Inr (printRetCode RetCodeOk m))
      | StatusDialing \<Rightarrow>
          (if prevStatus \<noteq> StatusIdle then Inl ErrInvalidStateTransition else Inr m)
      | StatusRinging \<Rightarrow>
          (if prevStatus \<noteq> StatusIdle then Inl ErrInvalidStateTransition else Inr m)
      | StatusClosed \<Rightarrow> Inr m)"

definition setStatus :: "ModemStatus \<Rightarrow> Modem \<Rightarrow> error + Modem" where
  "setStatus status m =
     (let prevStatus = st m in
      if prevStatus = StatusClosed then Inl ErrInvalidStateTransition
      else
        (case statusSwitch status prevStatus m of
           Inl e \<Rightarrow> Inl e
         | Inr m1 \<Rightarrow>
             Inr (m1\<lparr>stCancelled := stCancelled m1 @ [stCtx m1],
                      stCtx := Suc (stCtx m1),
                      st := status,
                      stdout := stdout m1 @
                        [''Modem status transition: '' @ String prevStatus @ '' -> ''
                           @ String status]\<rparr>)))"

definition status :: "Modem \<Rightarrow> ModemStatus" where
  "status m = st m"

definition close :: "Modem \<Rightarrow> error + Modem" where
  "close m =
     (case setStatus StatusClosed m of
        Inl e \<Rightarrow> Inl e
      | Inr m1 \<Rightarrow> Inr (m1\<lparr>ctxCancelled := True, ttyClosed := True\<rparr>))"

text \<open>
  \<^verbatim>\<open>incomingCall\<close> returns \<^verbatim>\<open>ErrModemBusy\<close> or nil (the \<open>error option\<close>); a panic of
  \<^verbatim>\<open>setStatus\<close> is the left summand.
\<close>

definition incomingCall :: "nat option \<Rightarrow> Modem \<Rightarrow> error + (error option \<times> Modem)" where
  "incomingCall c m =
     (if status m \<noteq> StatusIdle then Inr (Some ErrModemBusy, m)
      else
        (case setStatus StatusRinging m of
           Inl e \<Rightarrow> Inl e
         | Inr m1 \<Rightarrow> Inr (None, m1\<lparr>conn := c\<rparr>)))"

text \<open>
  \<^verbatim>\<open>NewModem\<close>: a nil configuration or a nil terminal is \<^verbatim>\<open>ErrConfigRequired\<close>.
  The read task it starts is \<open>ttyReadTask\<close> below.
\<close>

definition NewModem :: "ModemConfig option \<Rightarrow> error + Modem" where
  "NewModem config =
     (case config of
        None \<Rightarrow> Inl ErrConfigRequired
      | Some cfg \<Rightarrow>
          (case TTY cfg of
             None \<Rightarrow> Inl ErrConfigRequired
           | Some t \<Rightarrow>
               Inr \<lparr>parentDone = False, ctxCancelled = False, st = StatusIdle,
                    stCtx = 0, stCancelled = [], tty = t, ttyOut = [], ttyClosed = False,
                    conn = None, connOut = [], connClosed = [],
                    hasOutgoingCall = OutgoingCall cfg,
                    connectStr = (if ConnectStr cfg = [] then ''CONNECT'' else ConnectStr cfg),
                    sregs = Map.empty, echo = True, shortForm = False,
                    dialTasks = [], stdout = []\<rparr>))"

subsection \<open>The dial task\<close>

text \<open>
  What \<^verbatim>\<open>m.outgoingCall(m, number)\<close> returned: the stream (possibly nil) and
  whether the error is non-nil.
\<close>

type_synonym dialOutcome = "nat option \<times> bool"

text \<open>
  The critical section of \<^verbatim>\<open>processDialing\<close>, from \<^verbatim>\<open>m.Lock()\<close> on: \<open>ctx\<close> is
  the status context the task was started with, \<open>m\<close> the modem as the task finds it
  once it holds the lock.
\<close>

definition processDialingLocked :: "nat \<Rightarrow> dialOutcome \<Rightarrow> Modem \<Rightarrow> error + Modem" where
  "processDialingLocked ctx res m =
     (case res of (c, err) \<Rightarrow>
        if ctxErr m ctx then
          (if \<not> err then
             (case c of
                None \<Rightarrow> Inl NilDereference
              | Some s \<Rightarrow> Inr (m\<lparr>connClosed := connClosed m @ [s]\<rparr>))
           else Inr m)
        else if err then setStatus StatusIdle m
        else setStatus StatusConnected (m\<lparr>conn := c\<rparr>))"

text \<open>
  The whole task. It first looks at its context without the lock (\<open>m0\<close> is the modem
  at that moment), then calls the capability without the lock, and takes the lock
  when the capability has returned; other tasks have turned \<open>m0\<close> into \<open>m1\<close> by then.
\<close>

definition processDialing ::
  "nat \<Rightarrow> (string \<Rightarrow> dialOutcome) \<Rightarrow> string \<Rightarrow> Modem \<Rightarrow> Modem \<Rightarrow> error + Modem" where
  "processDialing ctx outgoingCall number m0 m1 =
     (if ctxErr m0 ctx then Inr m1
      else processDialingLocked ctx (outgoingCall number) m1)"

subsection \<open>The built-in commands and the hook\<close>

definition builtinCommand ::
  "string \<Rightarrow> string \<Rightarrow> bool \<Rightarrow> bool \<Rightarrow> string \<Rightarrow> Modem \<Rightarrow> error + (CmdReturn \<times> Modem)" where
  "builtinCommand cmdChar cmdNum cmdAssign cmdQuery cmdAssignVal m =
     (if cmdChar = ''S'' then
        (let r = Atoi cmdNum in
         if r < 0 \<or> r > 255 then Inr (RetCodeError, m)
         else if cmdAssign then
           (let v = Atoi cmdAssignVal in
            if v < 0 \<or> v > 255 then Inr (RetCodeError, m)
            else Inr (RetCodeOk, m\<lparr>sregs := (sregs m)(nat r \<mapsto> nat v)\<rparr>))
         else if cmdQuery then
           (let v = (case sregs m (nat r) of None \<Rightarrow> 0 | Some x \<Rightarrow> x) in
            Inr (RetCodeOk, ttyWriteStr (cr m @ fmt03d v @ [CR, LF]) m))
         else Inr (RetCodeOk, m))
      else if cmdChar = ''E'' then
        (let n = Atoi cmdNum in
         if n = 0 then Inr (RetCodeOk, m\<lparr>echo := False\<rparr>)
         else if n = 1 then Inr (RetCodeOk, m\<lparr>echo := True\<rparr>)
         else Inr (RetCodeError, m))
      else if cmdChar = ''V'' then
        (let n = Atoi cmdNum in
         if n = 0 then Inr (RetCodeOk, m\<lparr>shortForm := True\<rparr>)
         else if n = 1 then Inr (RetCodeOk, m\<lparr>shortForm := False\<rparr>)
         else Inr (RetCodeError, m))
      else if cmdChar = ''D'' then
        (if status m \<noteq> StatusIdle then Inr (RetCodeError, m)
         else if hasOutgoingCall m then
           (case setStatus StatusDialing m of
              Inl e \<Rightarrow> Inl e
            | Inr m1 \<Rightarrow>
                Inr (RetCodeSilent, m1\<lparr>dialTasks := dialTasks m1 @ [(stCtx m1, cmdAssignVal)]\<rparr>))
         else Inr (RetCodeNoCarrier, m))
      else if cmdChar = ''A'' then
        (if status m = StatusIdle then Inr (RetCodeNoCarrier, m)
         else if status m \<noteq> StatusRinging then Inr (RetCodeError, m)
         else
           (case setStatus StatusConnected m of
              Inl e \<Rightarrow> Inl e
            | Inr m1 \<Rightarrow> Inr (RetCodeSilent, m1)))
      else if cmdChar = ''H'' then
        (if status m = StatusConnected \<or> status m = StatusConnectedCmd then
           (case setStatus StatusIdle m of
              Inl e \<Rightarrow> Inl e
            | Inr m1 \<Rightarrow> Inr (RetCodeSilent, m1))
         else Inr (RetCodeOk, m))
      else if cmdChar = ''O'' then
        (if status m \<noteq> StatusConnectedCmd then Inr (RetCodeError, m)
         else
           (case setStatus StatusConnected m of
              Inl e \<Rightarrow> Inl e
            | Inr m1 \<Rightarrow> Inr (RetCodeSilent, m1)))
      else Inr (RetCodeOk, m))"

definition processCommand ::
  "CommandHookType option \<Rightarrow> string \<Rightarrow> string \<Rightarrow> bool \<Rightarrow> bool \<Rightarrow> string \<Rightarrow> Modem
     \<Rightarrow> error + (CmdReturn \<times> Modem)" where
  "processCommand hook cmdChar cmdNum cmdAssign cmdQuery cmdAssignVal m =
     (case hook of
        None \<Rightarrow> builtinCommand cmdChar cmdNum cmdAssign cmdQuery cmdAssignVal m
      | Some h \<Rightarrow>
          (case h m cmdChar cmdNum cmdAssign cmdQuery cmdAssignVal of
             (r, m1) \<Rightarrow>
               if r \<noteq> RetCodeSkip then Inr (r, m1)
               else builtinCommand cmdChar cmdNum cmdAssign cmdQuery cmdAssignVal m1))"

subsection \<open>The tokenizer\<close>

text \<open>The six variables the outer loop of \<^verbatim>\<open>processAtCommand\<close> resets for each sub-command.\<close>

record token =
  cmdChar :: string
  cmdNum :: string
  cmdLong :: bool
  cmdAssign :: bool
  cmdQuery :: bool
  cmdAssignVal :: string

definition token0 :: token where
  "token0 = \<lparr>cmdChar = [], cmdNum = [], cmdLong = False, cmdAssign = False,
             cmdQuery = False, cmdAssignVal = []\<rparr>"

text \<open>
  The inner loop: it reads bytes of \<^verbatim>\<open>cmdBuf\<close> until the sub-command ends. The
  result is the flag \<open>e\<close>, what is left of the buffer (\<^verbatim>\<open>UnreadByte\<close> puts the byte
  back) and the variables. A byte appended to the command name or to the number is a
  letter, a digit or one of \<open>+ # &\<close>, for which \<^verbatim>\<open>string(b)\<close> is the byte itself;
  the assignment value of a long command takes any byte, through \<open>stringOfByte\<close>.
\<close>

fun scanCommand :: "string \<Rightarrow> token \<Rightarrow> bool \<times> string \<times> token" where
  "scanCommand [] t = (False, [], t)"
| "scanCommand (b # bs) t =
     (if b = CHR ''?'' then
        (if cmdChar t \<noteq> [] then (False, bs, t\<lparr>cmdQuery := True\<rparr>) else (True, bs, t))
      else if cmdAssign t then
        (if \<not> cmdLong t \<and> \<not> checkValidNumChar b then (False, b # bs, t)
         else scanCommand bs (t\<lparr>cmdAssignVal := cmdAssignVal t @ stringOfByte b\<rparr>))
      else if b = CHR ''+'' \<or> b = CHR ''#'' then
        (if cmdChar t = [] then scanCommand bs (t\<lparr>cmdLong := True, cmdChar := cmdChar t @ [b]\<rparr>)
         else (True, bs, t))
      else if b = CHR ''='' then
        (if cmdChar t \<noteq> [] then scanCommand bs (t\<lparr>cmdAssign := True\<rparr>) else (True, bs, t))
      else if cmdLong t then
        (if checkValidCmdChar b then scanCommand bs (t\<lparr>cmdChar := cmdChar t @ [b]\<rparr>)
         else (True, bs, t))
      else if cmdChar t = [] \<or> cmdChar t = ''&'' then
        (if b = CHR ''&'' \<and> cmdChar t = [] \<and> bs \<noteq> [] then
           scanCommand bs (t\<lparr>cmdChar := cmdChar t @ [b]\<rparr>)
         else if checkValidCmdChar b then
           (if cmdChar t @ [b] = ''d'' \<or> cmdChar t @ [b] = ''D'' then
              scanCommand bs (t\<lparr>cmdChar := cmdChar t @ [b], cmdLong := True, cmdAssign := True\<rparr>)
            else scanCommand bs (t\<lparr>cmdChar := cmdChar t @ [b]\<rparr>))
         else (True, bs, t))
      else
        (if checkValidNumChar b then scanCommand bs (t\<lparr>cmdNum := cmdNum t @ [b]\<rparr>)
         else (False, b # bs, t)))"

text \<open>
  The outer loop. \<open>cmdRet\<close> is the variable of the source; \<open>rs\<close> collects, in order,
  each sub-command the loop handed to \<^verbatim>\<open>processCommand\<close> with what that call
  returned. The result is \<open>e\<close>, \<open>cmdRet\<close>, that list and the modem.
\<close>

function atLoop ::
  "CommandHookType option \<Rightarrow> string \<Rightarrow> CmdReturn \<Rightarrow> (token \<times> CmdReturn) list \<Rightarrow> Modem
     \<Rightarrow> error + (bool \<times> CmdReturn \<times> (token \<times> CmdReturn) list \<times> Modem)" where
  "atLoop hook buf cmdRet rs m =
     (if buf = [] then Inr (False, cmdRet, rs, m)
      else
        (let sc = scanCommand buf token0; e = fst sc; rest = fst (snd sc); t = snd (snd sc) in
         if e then Inr (True, cmdRet, rs, m)
         else
           (case processCommand hook (ToUpper (cmdChar t)) (cmdNum t) (cmdAssign t)
                   (cmdQuery t) (cmdAssignVal t) m of
              Inl f \<Rightarrow> Inl f
            | Inr (r, m1) \<Rightarrow>
                if r = RetCodeError then Inr (False, r, rs @ [(t, r)], m1)
                else if cmdLong t then Inr (False, r, rs @ [(t, r)], m1)
                else atLoop hook rest r (rs @ [(t, r)]) m1)))"
  by pat_completeness auto
termination
proof -
  have len: "length (fst (snd (scanCommand bs t))) \<le> length bs" for bs t
  proof (induction bs arbitrary: t)
    case Nil
    show ?case by simp
  next
    case (Cons b bs)
    have le: "\<And>t'. length (fst (snd (scanCommand bs t'))) \<le> Suc (length bs)"
      using Cons.IH le_SucI by blast
    show ?case
      by (simp add: le)
  qed
  have first: "length (fst (snd (scanCommand (b # bs) token0))) < Suc (length bs)" for b bs
  proof -
    have lt: "\<And>t. length (fst (snd (scanCommand bs t))) < Suc (length bs)"
      using len by (simp add: le_imp_less_Suc)
    show ?thesis
      by (simp add: token0_def lt)
  qed
  have shorter: "buf \<noteq> [] \<Longrightarrow> length (fst (snd (scanCommand buf token0))) < length buf"
    for buf
    using first by (cases buf) (simp_all del: scanCommand.simps)
  show ?thesis
    by (relation "measure (\<lambda>(hook, buf, cmdRet, rs, m). length buf)")
       (auto simp del: scanCommand.simps simp add: shorter)
qed

declare atLoop.simps [simp del]

definition processAtCommand ::
  "CommandHookType option \<Rightarrow> string \<Rightarrow> Modem \<Rightarrow> error + (CmdReturn \<times> Modem)" where
  "processAtCommand hook cmd m =
     (if status m \<noteq> StatusIdle \<and> status m \<noteq> StatusConnectedCmd then Inr (RetCodeError, m)
      else
        (case atLoop hook cmd RetCodeOk [] m of
           Inl f \<Rightarrow> Inl f
         | Inr (e, cmdRet, rs, m1) \<Rightarrow> Inr (if e then RetCodeError else cmdRet, m1)))"

text \<open>
  What a call of \<^verbatim>\<open>processAtCommand\<close> ran: the sub-commands handed to
  \<^verbatim>\<open>processCommand\<close>, in order, each with its result (none when the line is turned
  away before parsing); their results alone; and whether the tokenizer rejected a
  character of the line (the flag \<open>e\<close>).
\<close>

definition subCommands ::
  "CommandHookType option \<Rightarrow> string \<Rightarrow> Modem \<Rightarrow> (token \<times> CmdReturn) list" where
  "subCommands hook cmd m =
     (if status m \<noteq> StatusIdle \<and> status m \<noteq> StatusConnectedCmd then []
      else
        (case atLoop hook cmd RetCodeOk [] m of
           Inl f \<Rightarrow> []
         | Inr (e, cmdRet, rs, m1) \<Rightarrow> rs))"

definition subCommandResults ::
  "CommandHookType option \<Rightarrow> string \<Rightarrow> Modem \<Rightarrow> CmdReturn list" where
  "subCommandResults hook cmd m = map snd (subCommands hook cmd m)"

definition malformed :: "CommandHookType option \<Rightarrow> string \<Rightarrow> Modem \<Rightarrow> bool" where
  "malformed hook cmd m =
     (if status m \<noteq> StatusIdle \<and> status m \<noteq> StatusConnectedCmd then False
      else
        (case atLoop hook cmd RetCodeOk [] m of
           Inl f \<Rightarrow> False
         | Inr (e, cmdRet, rs, m1) \<Rightarrow> e))"

text \<open>A chain that goes on: each sub-command is short and did not return the error result.\<close>

definition chainOk :: "(token \<times> CmdReturn) list \<Rightarrow> bool" where
  "chainOk xs = list_all (\<lambda>(t, r). \<not> cmdLong t \<and> r \<noteq> RetCodeError) xs"

subsection \<open>The terminal read task\<close>

text \<open>The variables of \<^verbatim>\<open>ttyReadTask\<close> that live across iterations.\<close>

record ttyTask =
  aFlag :: bool
  atFlag :: bool
  buffer :: string
  lastCmd :: string

definition ttyTask0 :: ttyTask where
  "ttyTask0 = \<lparr>aFlag = False, atFlag = False, buffer = [], lastCmd = []\<rparr>"

text \<open>
  The body of the loop for one byte read from the terminal: the critical section from
  \<^verbatim>\<open>m.Lock()\<close> after the read to the \<^verbatim>\<open>m.Unlock()\<close> before the next one.
  \<^verbatim>\<open>bytes.ToUpper\<close> of the one byte is \<open>upperByte\<close>.
\<close>

definition ttyReadByte ::
  "CommandHookType option \<Rightarrow> char \<Rightarrow> ttyTask \<Rightarrow> Modem \<Rightarrow> error + (ttyTask \<times> Modem)" where
  "ttyReadByte hook b ts m =
     (if status m = StatusConnected then
        (case conn m of
           None \<Rightarrow> Inr (ts, m)
         | Some c \<Rightarrow> Inr (ts, m\<lparr>connOut := connOut m @ [(c, [b])]\<rparr>))
      else if status m = StatusDialing then
        (case setStatus StatusIdle m of
           Inl f \<Rightarrow> Inl f
         | Inr m1 \<Rightarrow> Inr (ts, m1))
      else if \<not> atFlag ts then
        (let m1 = (if echo m then ttyWriteStr [b] m else m) in
         if upperByte b = CHR ''A'' then Inr (ts\<lparr>aFlag := True\<rparr>, m1)
         else if aFlag ts \<and> b = CHR ''/'' then
           (case processAtCommand hook (lastCmd ts) (ttyWriteStr [CR] m1) of
              Inl f \<Rightarrow> Inl f
            | Inr (r, m2) \<Rightarrow> Inr (ts\<lparr>aFlag := False\<rparr>, printRetCode r m2))
         else if aFlag ts \<and> upperByte b = CHR ''T'' then
           Inr (ts\<lparr>atFlag := True, aFlag := False\<rparr>, m1)
         else Inr (ts\<lparr>aFlag := False\<rparr>, m1))
      else if b = CHR 0x7F then
        (if length (buffer ts) > 0 then
           Inr (ts\<lparr>buffer := butlast (buffer ts)\<rparr>,
                ttyWriteStr ([CHR 0x1B] @ ''[D '' @ [CHR 0x1B] @ ''[D'') m)
         else Inr (ts, m))
      else if b = CR then
        (case processAtCommand hook (buffer ts) (ttyWriteStr [CR] m) of
           Inl f \<Rightarrow> Inl f
         | Inr (r, m2) \<Rightarrow>
             Inr (ts\<lparr>atFlag := False, lastCmd := buffer ts, buffer := []\<rparr>, printRetCode r m2))
      else if length (buffer ts) < 100 \<and> IsPrint b then
        Inr (ts\<lparr>buffer := buffer ts @ [b]\<rparr>, if echo m then ttyWriteStr [b] m else m)
      else Inr (ts, m))"

text \<open>
  The loop over the bytes the terminal delivers, with no other task in between; the
  end of the list is the read that fails. The loop leaves when the modem's context
  has ended.
\<close>

fun ttyReadTask ::
  "CommandHookType option \<Rightarrow> string \<Rightarrow> ttyTask \<Rightarrow> Modem \<Rightarrow> error + (ttyTask \<times> Modem)" where
  "ttyReadTask hook [] ts m = Inr (ts, m)"
| "ttyReadTask hook (b # bs) ts m =
     (if modemCtxErr m then Inr (ts, m)
      else
        (case ttyReadByte hook b ts m of
           Inl f \<Rightarrow> Inl f
         | Inr (ts1, m1) \<Rightarrow> ttyReadTask hook bs ts1 m1))"

subsection \<open>A fresh modem, and the transition table of the specification\<close>

text \<open>
  A configuration with a terminal and nothing else, and the modem \<^verbatim>\<open>NewModem\<close>
  builds from it: idle, echo on, verbose, no registers set, no dial capability.
\<close>

definition exampleConfig :: ModemConfig where
  "exampleConfig = \<lparr>OutgoingCall = False, CommandHook = None, TTY = Some 0, ConnectStr = []\<rparr>"

definition exampleModem :: Modem where
  "exampleModem =
     \<lparr>parentDone = False, ctxCancelled = False, st = StatusIdle,
      stCtx = 0, stCancelled = [], tty = 0, ttyOut = [], ttyClosed = False,
      conn = None, connOut = [], connClosed = [],
      hasOutgoingCall = False, connectStr = ''CONNECT'',
      sregs = Map.empty, echo = True, shortForm = False,
      dialTasks = [], stdout = []\<rparr>"

text \<open>
  The table of allowed transitions as the specification lists it (current status,
  allowed next statuses), written from the specification's words and compared with
  \<open>setStatus\<close> below.
\<close>

fun specAllowed :: "ModemStatus \<Rightarrow> ModemStatus list" where
  "specAllowed StatusIdle = [StatusDialing, StatusRinging, StatusClosed]"
| "specAllowed StatusDialing = [StatusConnected, StatusIdle, StatusClosed]"
| "specAllowed StatusRinging = [StatusConnected, StatusIdle, StatusClosed]"
| "specAllowed StatusConnected = [StatusConnectedCmd, StatusIdle, StatusClosed]"
| "specAllowed StatusConnectedCmd = [StatusConnected, StatusIdle, StatusClosed]"
| "specAllowed StatusClosed = []"

definition specTransition :: "ModemStatus \<Rightarrow> ModemStatus \<Rightarrow> bool" where
  "specTransition cur nxt = (nxt \<in> set (specAllowed cur))"

text \<open>
  The side effects on entry as the specification lists them: the result code printed
  (if any), and whether the connection is closed and discarded.
\<close>

definition specPrinted :: "ModemStatus \<Rightarrow> ModemStatus \<Rightarrow> CmdReturn option" where
  "specPrinted cur nxt =
     (if nxt = StatusIdle \<and> cur \<in> {StatusConnected, StatusConnectedCmd, StatusDialing}
      then Some RetCodeNoCarrier
      else if nxt = StatusConnected then Some RetCodeConnect
      else if nxt = StatusConnectedCmd then Some RetCodeOk
      else None)"

definition specClosesConn :: "ModemStatus \<Rightarrow> ModemStatus \<Rightarrow> bool" where
  "specClosesConn cur nxt =
     (nxt = StatusIdle \<and> cur \<in> {StatusConnected, StatusConnectedCmd, StatusRinging})"

text \<open>
  The invariant of the specification: the connection is present exactly in the
  statuses Ringing, Connected and ConnectedCmd.
\<close>

definition connInv :: "Modem \<Rightarrow> bool" where
  "connInv m =
     ((conn m \<noteq> None) = (st m \<in> {StatusRinging, StatusConnected, StatusConnectedCmd}))"

text \<open>What every successful transition does besides: the status scope is replaced.\<close>

definition rescope :: "ModemStatus \<Rightarrow> ModemStatus \<Rightarrow> Modem \<Rightarrow> Modem" where
  "rescope cur nxt m =
     m\<lparr>stCancelled := stCancelled m @ [stCtx m], stCtx := Suc (stCtx m), st := nxt,
       stdout := stdout m @
         [''Modem status transition: '' @ String cur @ '' -> '' @ String nxt]\<rparr>"

section \<open>Properties\<close>

lemmas byte_defs = checkValidCmdChar_def checkValidNumChar_def byteVal_def upperByte_def
  ToUpper_def stringOfByte_def IsPrint_def

lemmas modem_defs = setStatus_def statusSwitch_def status_def printRetCode_def ttyWriteStr_def
  cr_def

lemmas line_defs = processAtCommand_def atLoop.simps token0_def processCommand_def
  builtinCommand_def status_def byte_defs Atoi_def

lemma NewModem_example: "NewModem (Some exampleConfig) = Inr exampleModem"
  by (simp add: NewModem_def exampleConfig_def exampleModem_def)

lemma NewModem_Some:
  "NewModem (Some cfg) = Inr m0 \<Longrightarrow>
     st m0 = StatusIdle \<and> conn m0 = None \<and> echo m0 \<and> \<not> shortForm m0 \<and> sregs m0 = Map.empty
     \<and> ttyOut m0 = [] \<and> hasOutgoingCall m0 = OutgoingCall cfg \<and> connClosed m0 = []
     \<and> \<not> ctxCancelled m0 \<and> \<not> parentDone m0"
  by (auto simp: NewModem_def split: option.splits)

lemma fmt03d_42: "fmt03d 42 = ''042''"
  by code_simp

lemma fmt03d_0: "fmt03d 0 = ''000''"
  by code_simp

subsection \<open>Answering an incoming call\<close>

lemma processAtCommand_gate:
  "st m \<noteq> StatusIdle \<Longrightarrow> st m \<noteq> StatusConnectedCmd \<Longrightarrow>
     processAtCommand hook cmd m = Inr (RetCodeError, m)"
  by (simp add: processAtCommand_def status_def)

lemma incomingCall_idle:
  "st m0 = StatusIdle \<Longrightarrow>
     incomingCall c m0 = Inr (None, (rescope StatusIdle StatusRinging m0)\<lparr>conn := c\<rparr>)"
  by (simp add: incomingCall_def modem_defs rescope_def)

text \<open>
  Claim C1 says that on a fresh modem an incoming call makes the status Ringing and
  that the line \<open>A\<close> (the input \<open>ATA\<close> and a carriage return) then connects
  silently. The first half holds. The second does not: \<^verbatim>\<open>processAtCommand\<close> turns
  every line away unless the status is Idle or ConnectedCmd, so while Ringing the line
  \<open>A\<close> never reaches the branch of \<^verbatim>\<open>processCommand\<close> that answers. The result is
  the error result, the modem is unchanged (status Ringing), and the read task prints
  \<open>ERROR\<close>. This holds for every configuration, stream and hook.
\<close>

theorem answer_rejected_while_ringing:
  assumes "NewModem (Some cfg) = Inr m0"
    and "m1 = (rescope StatusIdle StatusRinging m0)\<lparr>conn := Some c\<rparr>"
  shows "incomingCall (Some c) m0 = Inr (None, m1) \<and> st m1 = StatusRinging \<and>
     processAtCommand hook ''A'' m1 = Inr (RetCodeError, m1) \<and>
     ttyReadTask hook (''ATA'' @ [CR]) ttyTask0 m1 =
       Inr (ttyTask0\<lparr>lastCmd := ''A''\<rparr>,
            m1\<lparr>ttyOut := ''ATA'' @ [CR] @ [CR, LF] @ ''ERROR'' @ [CR, LF]\<rparr>)"
proof -
  have f: "st m0 = StatusIdle" "echo m0" "\<not> shortForm m0" "ttyOut m0 = []"
    "\<not> ctxCancelled m0" "\<not> parentDone m0"
    using NewModem_Some [OF assms(1)] by simp_all
  have r: "st m1 = StatusRinging" "echo m1" "\<not> shortForm m1" "ttyOut m1 = []"
    "\<not> modemCtxErr m1"
    using f by (simp_all add: assms(2) rescope_def modemCtxErr_def)
  have gate: "\<And>m. st m = StatusRinging \<Longrightarrow> processAtCommand hook ''A'' m = Inr (RetCodeError, m)"
    by (simp add: processAtCommand_gate)
  show ?thesis
    using r
    by (simp add: incomingCall_idle f(1) assms(2) [symmetric] gate ttyReadByte_def ttyTask0_def
        modemCtxErr_def status_def byte_defs ttyWriteStr_def printRetCode_def cr_def)
qed

text \<open>The same on the example modem, with stream 7 and no hook.\<close>

theorem answer_rejected_while_ringing_witness:
  "NewModem (Some exampleConfig) = Inr exampleModem \<and>
   incomingCall (Some 7) exampleModem =
     Inr (None, (rescope StatusIdle StatusRinging exampleModem)\<lparr>conn := Some 7\<rparr>) \<and>
   processAtCommand None ''A'' ((rescope StatusIdle StatusRinging exampleModem)\<lparr>conn := Some 7\<rparr>) =
     Inr (RetCodeError, (rescope StatusIdle StatusRinging exampleModem)\<lparr>conn := Some 7\<rparr>)"
  using answer_rejected_while_ringing [OF NewModem_example refl, of 7 None]
  by (simp add: NewModem_example)

subsection \<open>The connection and the status\<close>

text \<open>
  Claim C2 says that the connection is present exactly while the status is Ringing,
  Connected or ConnectedCmd, and that every operation leaving these statuses, close
  included, discards the connection. \<^verbatim>\<open>close\<close> does not: \<^verbatim>\<open>setStatus\<close> has no case
  for the target Closed, so on a modem that is not closed yet \<^verbatim>\<open>close\<close> changes the
  status, the status scope, the modem's context and the terminal, and leaves \<open>conn\<close>
  and \<open>connClosed\<close> as they were: a connection that was present stays stored and is
  never closed.
\<close>

theorem close_keeps_connection:
  "st m \<noteq> StatusClosed \<Longrightarrow>
     close m = Inr ((rescope (st m) StatusClosed m)\<lparr>ctxCancelled := True, ttyClosed := True\<rparr>)"
  by (simp add: close_def setStatus_def statusSwitch_def rescope_def)

text \<open>
  On the example modem with the incoming call on stream 7, where the invariant holds:
  after \<^verbatim>\<open>close\<close> the status is Closed, the connection is still stream 7, nothing
  was closed, and the invariant is broken.
\<close>

theorem close_keeps_connection_witness:
  "st ((rescope StatusIdle StatusRinging exampleModem)\<lparr>conn := Some 7\<rparr>) \<noteq> StatusClosed \<and>
   connInv ((rescope StatusIdle StatusRinging exampleModem)\<lparr>conn := Some 7\<rparr>) \<and>
   (\<exists>m. close ((rescope StatusIdle StatusRinging exampleModem)\<lparr>conn := Some 7\<rparr>) = Inr m \<and>
        st m = StatusClosed \<and> conn m = Some 7 \<and> connClosed m = [] \<and> \<not> connInv m)"
  using close_keeps_connection [of "(rescope StatusIdle StatusRinging exampleModem)\<lparr>conn := Some 7\<rparr>"]
  by (simp add: rescope_def exampleModem_def connInv_def)

text \<open>
  The other operations keep the invariant, with no hook configured: an incoming call
  with a stream, a command line, a byte handled by the read task, and the dial task
  when the capability returns a stream or an error.
\<close>

lemma connInv_ttyOut [simp]:
  "connInv (ttyWriteStr s m) = connInv m" "connInv (printRetCode r m) = connInv m"
  by (simp_all add: connInv_def ttyWriteStr_def printRetCode_def Let_def)

lemma setStatus_connInv:
  "setStatus s m = Inr m' \<Longrightarrow>
     (s \<in> {StatusRinging, StatusConnected, StatusConnectedCmd}) = (conn m \<noteq> None) \<Longrightarrow>
     s \<noteq> StatusClosed \<Longrightarrow> connInv m'"
  by (cases s; cases "st m")
     (auto simp add: setStatus_def statusSwitch_def connInv_def printRetCode_def ttyWriteStr_def
        split: option.splits)

lemma incomingCall_connInv:
  "connInv m \<Longrightarrow> incomingCall (Some c) m = Inr (x, m') \<Longrightarrow> connInv m'"
  by (cases "st m") (auto simp: incomingCall_def modem_defs connInv_def split: if_splits)

lemma builtinCommand_connInv:
  "connInv m \<Longrightarrow> builtinCommand c n a q v m = Inr (r, m') \<Longrightarrow> connInv m'"
  by (cases "st m")
     (auto simp: builtinCommand_def modem_defs connInv_def Let_def
        split: if_splits option.splits)

lemma atLoop_connInv:
  "connInv m \<Longrightarrow> atLoop None buf c0 rs m = Inr (e, c1, rs', m') \<Longrightarrow> connInv m'"
proof (induction "None :: CommandHookType option" buf c0 rs m rule: atLoop.induct)
  case (1 buf cmdRet rs m)
  show ?case
  proof (cases "buf = [] \<or> fst (scanCommand buf token0)")
    case True
    with "1.prems" show ?thesis
      by (auto simp add: atLoop.simps [of None buf] Let_def split: if_splits)
  next
    case False
    define t where "t = snd (snd (scanCommand buf token0))"
    from False "1.prems"(2) obtain r m1 where
      cmd: "builtinCommand (ToUpper (cmdChar t)) (cmdNum t) (cmdAssign t) (cmdQuery t)
              (cmdAssignVal t) m = Inr (r, m1)"
      by (auto simp add: atLoop.simps [of None buf] Let_def t_def processCommand_def
          split: sum.splits)
    have inv1: "connInv m1"
      using builtinCommand_connInv [OF "1.prems"(1) cmd] .
    show ?thesis
    proof (cases "r = RetCodeError \<or> cmdLong t")
      case True
      with False cmd "1.prems"(2) have "m' = m1"
        by (auto simp add: atLoop.simps [of None buf] Let_def t_def processCommand_def
            split: if_splits)
      with inv1 show ?thesis by simp
    next
      case stop: False
      with False cmd "1.prems"(2)
      have rec: "atLoop None (fst (snd (scanCommand buf token0))) r (rs @ [(t, r)]) m1
          = Inr (e, c1, rs', m')"
        by (simp add: atLoop.simps [of None buf] Let_def t_def processCommand_def)
      from False stop have a: "buf \<noteq> []" "\<not> fst (scanCommand buf token0)"
        "r \<noteq> RetCodeError" "\<not> cmdLong t"
        by simp_all
      have pc: "processCommand None (ToUpper (cmdChar t)) (cmdNum t) (cmdAssign t) (cmdQuery t)
              (cmdAssignVal t) m = Inr (r, m1)"
        using cmd by (simp add: processCommand_def)
      show ?thesis
        using "1.hyps" [OF a(1) refl refl refl t_def a(2) pc refl a(3) a(4) inv1 rec] .
    qed
  qed
qed

lemma processAtCommand_connInv:
  "connInv m \<Longrightarrow> processAtCommand None cmd m = Inr (r, m') \<Longrightarrow> connInv m'"
  by (auto simp add: processAtCommand_def split: if_splits sum.splits dest: atLoop_connInv)

lemma processDialingLocked_connInv:
  assumes "connInv m" "res = (Some c, False) \<or> snd res"
    "processDialingLocked ctx res m = Inr m'"
  shows "connInv m'"
proof (cases "ctxErr m ctx")
  case True
  with assms show ?thesis
    by (cases res) (auto simp add: processDialingLocked_def connInv_def split: if_splits)
next
  case False
  show ?thesis
  proof (cases "snd res")
    case True
    with False assms(3) have "setStatus StatusIdle m = Inr m'"
      by (cases res) (simp add: processDialingLocked_def)
    then show ?thesis
      using assms(1)
      by (cases "st m")
         (auto simp add: setStatus_def statusSwitch_def connInv_def printRetCode_def
            ttyWriteStr_def split: option.splits)
  next
    case ok: False
    with assms(2) have res: "res = (Some c, False)" by simp
    with False assms(3) have "setStatus StatusConnected (m\<lparr>conn := Some c\<rparr>) = Inr m'"
      by (simp add: processDialingLocked_def)
    then show ?thesis
      by (rule setStatus_connInv) simp_all
  qed
qed

lemma ttyReadByte_cases:
  assumes "ttyReadByte None b ts m = Inr (ts', m')"
  shows "m' = m \<or> (\<exists>c. m' = m\<lparr>connOut := c\<rparr>)
     \<or> (status m = StatusDialing \<and> setStatus StatusIdle m = Inr m')
     \<or> (\<exists>s. m' = ttyWriteStr s m)
     \<or> (\<exists>s cmd r m2. processAtCommand None cmd (ttyWriteStr s m) = Inr (r, m2)
           \<and> m' = printRetCode r m2)"
proof (cases "status m = StatusConnected")
  case True
  with assms show ?thesis
    by (auto simp add: ttyReadByte_def split: option.splits)
next
  case nc: False
  show ?thesis
  proof (cases "status m = StatusDialing")
    case True
    with nc assms show ?thesis
      by (auto simp add: ttyReadByte_def split: sum.splits)
  next
    case nd: False
    show ?thesis
    proof (cases "atFlag ts")
      case False
      define m1 where "m1 = (if echo m then ttyWriteStr [b] m else m)"
      have m1: "m1 = m \<or> m1 = ttyWriteStr [b] m" by (simp add: m1_def)
      have w: "ttyWriteStr [CR] m1 = ttyWriteStr [CR] m
          \<or> ttyWriteStr [CR] m1 = ttyWriteStr ([b] @ [CR]) m"
        by (simp add: m1_def ttyWriteStr_def)
      from assms nc nd False
      have "m' = m1 \<or>
          (\<exists>r m2. processAtCommand None (lastCmd ts) (ttyWriteStr [CR] m1) = Inr (r, m2)
             \<and> m' = printRetCode r m2)"
        by (simp add: ttyReadByte_def m1_def [symmetric] split: if_splits sum.splits prod.splits)
      with m1 w show ?thesis
        by metis
    next
      case True
      from assms nc nd True
      have "m' = m \<or> (\<exists>s. m' = ttyWriteStr s m)
         \<or> (\<exists>r m2. processAtCommand None (buffer ts) (ttyWriteStr [CR] m) = Inr (r, m2)
           \<and> m' = printRetCode r m2)"
        by (simp add: ttyReadByte_def split: if_splits sum.splits prod.splits) blast+
      then show ?thesis
        by blast
    qed
  qed
qed

lemma ttyReadByte_connInv:
  assumes inv: "connInv m" and step: "ttyReadByte None b ts m = Inr (ts', m')"
  shows "connInv m'"
proof -
  from ttyReadByte_cases [OF step]
  consider "m' = m" | c where "m' = m\<lparr>connOut := c\<rparr>"
    | "status m = StatusDialing" "setStatus StatusIdle m = Inr m'"
    | s where "m' = ttyWriteStr s m"
    | s cmd r m2 where "processAtCommand None cmd (ttyWriteStr s m) = Inr (r, m2)"
        "m' = printRetCode r m2"
    by blast
  then show ?thesis
  proof cases
    case 1
    with inv show ?thesis by simp
  next
    case 2
    with inv show ?thesis by (simp add: connInv_def)
  next
    case 3
    from inv 3(1) have "conn m = None" by (simp add: connInv_def status_def)
    with 3(2) show ?thesis
      by (intro setStatus_connInv [of StatusIdle m m']) simp_all
  next
    case 4
    with inv show ?thesis by simp
  next
    case 5
    from inv have "connInv (ttyWriteStr s m)" by simp
    from processAtCommand_connInv [OF this 5(1)] 5(2) show ?thesis by simp
  qed
qed

subsection \<open>The transition table\<close>

text \<open>
  Claim C3, as the code has it. A request on a closed modem panics. Otherwise the
  request succeeds exactly for the pairs of the specification's table and for the pair
  (Idle, Idle), which the table does not list: \<^verbatim>\<open>setStatus\<close> has no check on the way
  into Idle. A successful request prints the result code the specification names for
  the pair (none for the others), closes and discards the connection exactly on the
  way into Idle from Connected, ConnectedCmd or Ringing, and replaces the status scope;
  when the connection to close is absent, the call of \<^verbatim>\<open>Close\<close> on nil panics. Every
  other pair panics with \<^verbatim>\<open>ErrInvalidStateTransition\<close>.
\<close>

theorem setStatus_table:
  "setStatus nxt m =
     (if st m = StatusClosed then Inl ErrInvalidStateTransition
      else if specTransition (st m) nxt \<or> (st m = StatusIdle \<and> nxt = StatusIdle) then
        (let m1 = (case specPrinted (st m) nxt of None \<Rightarrow> m | Some r \<Rightarrow> printRetCode r m) in
         if specClosesConn (st m) nxt then
           (case conn m of
              None \<Rightarrow> Inl NilDereference
            | Some c \<Rightarrow>
                Inr (rescope (st m) nxt (m1\<lparr>conn := None, connClosed := connClosed m @ [c]\<rparr>)))
         else Inr (rescope (st m) nxt m1))
      else Inl ErrInvalidStateTransition)"
  by (cases "st m"; cases nxt;
      simp add: setStatus_def statusSwitch_def specTransition_def specPrinted_def
        specClosesConn_def rescope_def printRetCode_def ttyWriteStr_def split: option.splits)

text \<open>
  Claim C3 as stated fails: (Idle, Idle) is not in the table, and on a fresh modem the
  request succeeds, with no output and nothing closed.
\<close>

theorem setStatus_idle_idle_counterexample:
  "\<not> specTransition StatusIdle StatusIdle \<and>
   setStatus StatusIdle exampleModem = Inr (rescope StatusIdle StatusIdle exampleModem)"
  by (simp add: specTransition_def setStatus_def statusSwitch_def rescope_def exampleModem_def)

subsection \<open>The dial race\<close>

lemma statusSwitch_Inr:
  "statusSwitch s p m = Inr m1 \<Longrightarrow>
     stCancelled m1 = stCancelled m \<and> stCtx m1 = stCtx m \<and> parentDone m1 = parentDone m
     \<and> ctxCancelled m1 = ctxCancelled m"
  by (cases s)
     (auto simp: statusSwitch_def printRetCode_def ttyWriteStr_def Let_def
       split: if_splits option.splits)

lemma setStatus_Inr:
  "setStatus s ma = Inr mb \<Longrightarrow>
     stCancelled mb = stCancelled ma @ [stCtx ma] \<and> parentDone mb = parentDone ma
     \<and> ctxCancelled mb = ctxCancelled ma \<and> st mb = s"
  by (auto simp: setStatus_def Let_def split: if_splits sum.splits dest!: statusSwitch_Inr)

lemma setStatus_cancels_scope: "setStatus s ma = Inr mb \<Longrightarrow> ctxErr mb (stCtx ma)"
  by (drule setStatus_Inr) (simp add: ctxErr_def)

lemma setStatus_keeps_cancelled: "setStatus s ma = Inr mb \<Longrightarrow> ctxErr ma c \<Longrightarrow> ctxErr mb c"
  by (drule setStatus_Inr) (auto simp add: ctxErr_def)

text \<open>
  Claim C4. A status transition cancels the status scope that was current before it,
  which is the scope a dial task started in that status holds, and a scope once
  cancelled stays cancelled across later transitions. When the task takes the
  lock and finds its scope cancelled, it leaves the modem as it is, but for closing the
  stream the capability produced: status, connection and scope are untouched (a
  capability that returns neither a stream nor an error makes the task panic on the nil
  \<^verbatim>\<open>Close\<close>). When the scope is live, both on entry and under the lock, the task
  moves to Idle on failure, and on success stores the stream and moves to Connected.
\<close>

theorem dial_race:
  "(setStatus s ma = Inr mb \<longrightarrow> ctxErr mb (stCtx ma) \<and> (ctxErr ma ctx \<longrightarrow> ctxErr mb ctx)) \<and>
   (ctxErr m1 ctx \<longrightarrow>
      processDialing ctx outgoingCall number m0 m1 =
        (if ctxErr m0 ctx \<or> snd (outgoingCall number) then Inr m1
         else (case fst (outgoingCall number) of
                 None \<Rightarrow> Inl NilDereference
               | Some c \<Rightarrow> Inr (m1\<lparr>connClosed := connClosed m1 @ [c]\<rparr>)))) \<and>
   (\<not> ctxErr m0 ctx \<and> \<not> ctxErr m1 ctx \<longrightarrow>
      processDialing ctx outgoingCall number m0 m1 =
        (if snd (outgoingCall number) then setStatus StatusIdle m1
         else setStatus StatusConnected (m1\<lparr>conn := fst (outgoingCall number)\<rparr>)))"
proof (intro conjI impI)
  assume "setStatus s ma = Inr mb"
  then show "ctxErr mb (stCtx ma)" by (rule setStatus_cancels_scope)
next
  assume "setStatus s ma = Inr mb" and "ctxErr ma ctx"
  then show "ctxErr mb ctx" by (rule setStatus_keeps_cancelled)
next
  assume "ctxErr m1 ctx"
  then show "processDialing ctx outgoingCall number m0 m1 =
        (if ctxErr m0 ctx \<or> snd (outgoingCall number) then Inr m1
         else (case fst (outgoingCall number) of
                 None \<Rightarrow> Inl NilDereference
               | Some c \<Rightarrow> Inr (m1\<lparr>connClosed := connClosed m1 @ [c]\<rparr>)))"
    by (cases "outgoingCall number") (simp add: processDialing_def processDialingLocked_def)
next
  assume "\<not> ctxErr m0 ctx \<and> \<not> ctxErr m1 ctx"
  then show "processDialing ctx outgoingCall number m0 m1 =
        (if snd (outgoingCall number) then setStatus StatusIdle m1
         else setStatus StatusConnected (m1\<lparr>conn := fst (outgoingCall number)\<rparr>))"
    by (cases "outgoingCall number") (simp add: processDialing_def processDialingLocked_def)
qed

text \<open>
  On the example modem: a dial begins (scope 1), a key press forces Idle, and the
  capability then delivers stream 7, which is closed and not stored; without the key
  press the same delivery connects, with stream 7 as the connection.
\<close>

theorem dial_race_witness:
  "setStatus StatusIdle (rescope StatusIdle StatusDialing exampleModem) =
     Inr (rescope StatusDialing StatusIdle
            (printRetCode RetCodeNoCarrier (rescope StatusIdle StatusDialing exampleModem))) \<and>
   ctxErr (rescope StatusDialing StatusIdle
            (printRetCode RetCodeNoCarrier (rescope StatusIdle StatusDialing exampleModem))) 1 \<and>
   processDialing 1 (\<lambda>number. (Some 7, False)) ''5551234''
       (rescope StatusIdle StatusDialing exampleModem)
       (rescope StatusDialing StatusIdle
            (printRetCode RetCodeNoCarrier (rescope StatusIdle StatusDialing exampleModem))) =
     Inr ((rescope StatusDialing StatusIdle
            (printRetCode RetCodeNoCarrier (rescope StatusIdle StatusDialing exampleModem)))
          \<lparr>connClosed := [7]\<rparr>) \<and>
   \<not> ctxErr (rescope StatusIdle StatusDialing exampleModem) 1 \<and>
   processDialing 1 (\<lambda>number. (Some 7, False)) ''5551234''
       (rescope StatusIdle StatusDialing exampleModem)
       (rescope StatusIdle StatusDialing exampleModem) =
     Inr (rescope StatusDialing StatusConnected
            (printRetCode RetCodeConnect
               ((rescope StatusIdle StatusDialing exampleModem)\<lparr>conn := Some 7\<rparr>)))"
proof -
  let ?ma = "rescope StatusIdle StatusDialing exampleModem"
  let ?mb = "rescope StatusDialing StatusIdle (printRetCode RetCodeNoCarrier ?ma)"
  let ?oc = "\<lambda>number :: string. (Some (7 :: nat), False)"
  have step: "setStatus StatusIdle ?ma = Inr ?mb"
    by (simp add: setStatus_def statusSwitch_def rescope_def)
  have ctx: "stCtx ?ma = 1"
    by (simp add: rescope_def exampleModem_def)
  have live: "\<not> ctxErr ?ma 1"
    by (simp add: ctxErr_def rescope_def exampleModem_def)
  have closed: "connClosed ?mb = []"
    by (simp add: rescope_def exampleModem_def printRetCode_def ttyWriteStr_def)
  have conn: "setStatus StatusConnected (?ma\<lparr>conn := Some 7\<rparr>) =
      Inr (rescope StatusDialing StatusConnected
             (printRetCode RetCodeConnect (?ma\<lparr>conn := Some 7\<rparr>)))"
    by (simp add: setStatus_def statusSwitch_def rescope_def)
  note race = dial_race [where s = StatusIdle and ma = ?ma and mb = ?mb and ?m1.0 = ?mb
      and ctx = 1 and outgoingCall = ?oc and number = "''5551234''" and ?m0.0 = ?ma]
  note go = dial_race [where s = StatusIdle and ma = ?ma and mb = ?mb and ?m1.0 = ?ma
      and ctx = 1 and outgoingCall = ?oc and number = "''5551234''" and ?m0.0 = ?ma]
  show ?thesis
    using race go step ctx live closed conn by simp
qed

subsection \<open>Registers\<close>

text \<open>
  Claim C5. On a fresh modem with no hook, the line \<open>S5=42\<close> returns OK and stores 42
  in register 5, changing nothing else; the line \<open>S5?\<close> then returns OK and writes the
  line \<open>042\<close> to the terminal, which had received nothing before.
\<close>

theorem register_round_trip:
  assumes "NewModem (Some cfg) = Inr m0"
  shows "processAtCommand None ''S5=42'' m0 = Inr (RetCodeOk, m0\<lparr>sregs := (sregs m0)(5 \<mapsto> 42)\<rparr>) \<and>
         processAtCommand None ''S5?'' (m0\<lparr>sregs := (sregs m0)(5 \<mapsto> 42)\<rparr>) =
           Inr (RetCodeOk,
                m0\<lparr>sregs := (sregs m0)(5 \<mapsto> 42), ttyOut := [CR, LF] @ ''042'' @ [CR, LF]\<rparr>)"
proof -
  have f: "st m0 = StatusIdle" "\<not> shortForm m0" "ttyOut m0 = []"
    using NewModem_Some [OF assms] by simp_all
  show ?thesis
    using f by (simp add: line_defs fmt03d_42 ttyWriteStr_def cr_def)
qed

theorem register_round_trip_witness:
  "NewModem (Some exampleConfig) = Inr exampleModem \<and>
   processAtCommand None ''S5=42'' exampleModem =
     Inr (RetCodeOk, exampleModem\<lparr>sregs := (sregs exampleModem)(5 \<mapsto> 42)\<rparr>) \<and>
   processAtCommand None ''S5?'' (exampleModem\<lparr>sregs := (sregs exampleModem)(5 \<mapsto> 42)\<rparr>) =
     Inr (RetCodeOk, exampleModem\<lparr>sregs := (sregs exampleModem)(5 \<mapsto> 42),
                                   ttyOut := [CR, LF] @ ''042'' @ [CR, LF]\<rparr>)"
  using register_round_trip [OF NewModem_example] NewModem_example by simp

subsection \<open>Dialing without a capability\<close>

text \<open>
  Claim C6, as the code has it: the dial command on an idle modem with no outgoing-call
  capability returns the "no carrier" result and leaves the modem unchanged, for the
  command alone and for a whole dial line.
\<close>

theorem dial_without_capability:
  "st m = StatusIdle \<Longrightarrow> \<not> hasOutgoingCall m \<Longrightarrow>
     processCommand None ''D'' num asg qry val m = Inr (RetCodeNoCarrier, m)
     \<and> processAtCommand None ''D5551234'' m = Inr (RetCodeNoCarrier, m)"
  by (simp add: line_defs)

theorem dial_without_capability_witness:
  "st exampleModem = StatusIdle \<and> \<not> hasOutgoingCall exampleModem \<and>
   processAtCommand None ''D5551234'' exampleModem = Inr (RetCodeNoCarrier, exampleModem) \<and>
   ttyOut (printRetCode RetCodeNoCarrier exampleModem) = [CR, LF] @ ''NO CARRIER'' @ [CR, LF]"
proof -
  have a: "st exampleModem = StatusIdle" and b: "\<not> hasOutgoingCall exampleModem"
    by (simp_all add: exampleModem_def)
  have c: "ttyOut (printRetCode RetCodeNoCarrier exampleModem) = [CR, LF] @ ''NO CARRIER'' @ [CR, LF]"
    by (simp add: printRetCode_def ttyWriteStr_def cr_def exampleModem_def)
  show ?thesis
    using dial_without_capability [OF a b] a b c by simp
qed

text \<open>
  Claim C6 as stated fails: on the example modem, idle and with no capability, the dial
  command returns "no carrier", not "no dial tone".
\<close>

theorem dial_without_capability_counterexample:
  "processCommand None ''D'' [] True False ''5551234'' exampleModem
     = Inr (RetCodeNoCarrier, exampleModem)
   \<and> processCommand None ''D'' [] True False ''5551234'' exampleModem
     \<noteq> Inr (RetCodeNoDialtone, exampleModem)"
  by (simp add: processCommand_def builtinCommand_def status_def exampleModem_def)

subsection \<open>The result of a command line\<close>

text \<open>
  What the outer loop appends to the list of sub-commands: all but the last of them are
  short and did not fail, the variable \<open>cmdRet\<close> ends as the result of the last one (or
  as it began when there is none), and when the tokenizer rejected a character none of
  them failed.
\<close>

lemma atLoop_log:
  assumes "atLoop hook buf c0 rs m = Inr (e, c1, rs', m')"
  shows "\<exists>new. rs' = rs @ new \<and> chainOk (butlast new) \<and>
           c1 = (if new = [] then c0 else snd (last new)) \<and>
           (e \<longrightarrow> list_all (\<lambda>(t, r). r \<noteq> RetCodeError) new)"
  using assms
proof (induction hook buf c0 rs m rule: atLoop.induct)
  case (1 hook buf cmdRet rs m)
  show ?case
  proof (cases "buf = []")
    case True
    with "1.prems" show ?thesis
      by (simp add: atLoop.simps chainOk_def)
  next
    case nonempty: False
    define sc where "sc = scanCommand buf token0"
    define t where "t = snd (snd sc)"
    define rest where "rest = fst (snd sc)"
    show ?thesis
    proof (cases "fst sc")
      case True
      with nonempty "1.prems" show ?thesis
        by (simp add: atLoop.simps [of hook buf] Let_def sc_def chainOk_def)
    next
      case scanned: False
      show ?thesis
      proof (cases "processCommand hook (ToUpper (cmdChar t)) (cmdNum t) (cmdAssign t)
                   (cmdQuery t) (cmdAssignVal t) m")
        case (Inl f)
        with nonempty scanned "1.prems" show ?thesis
          by (simp add: atLoop.simps [of hook buf] Let_def sc_def t_def)
      next
        case (Inr p)
        obtain r m1 where p: "p = (r, m1)" by (cases p)
        show ?thesis
        proof (cases "r = RetCodeError \<or> cmdLong t")
          case True
          with nonempty scanned Inr p "1.prems"
          have "e = False \<and> c1 = r \<and> rs' = rs @ [(t, r)]"
            by (auto simp add: atLoop.simps [of hook buf] Let_def sc_def t_def split: if_splits)
          then show ?thesis
            by (intro exI [of _ "[(t, r)]"]) (simp add: chainOk_def)
        next
          case False
          with nonempty scanned Inr p "1.prems"
          have rec: "atLoop hook rest r (rs @ [(t, r)]) m1 = Inr (e, c1, rs', m')"
            by (simp add: atLoop.simps [of hook buf] Let_def sc_def t_def rest_def)
          from False have ne: "r \<noteq> RetCodeError" and short: "\<not> cmdLong t" by simp_all
          from "1.IH" [OF nonempty sc_def refl rest_def t_def scanned Inr p [symmetric] ne short rec]
          obtain new where new: "rs' = (rs @ [(t, r)]) @ new" "chainOk (butlast new)"
              "c1 = (if new = [] then r else snd (last new))"
              "e \<longrightarrow> list_all (\<lambda>(t, r). r \<noteq> RetCodeError) new"
            by blast
          show ?thesis
            using new False
            by (intro exI [of _ "(t, r) # new"]) (auto simp add: chainOk_def)
        qed
      qed
    qed
  qed
qed

text \<open>
  Claim C7, as the code has it. For every command line that \<^verbatim>\<open>processAtCommand\<close>
  returns from: in a status other than Idle and ConnectedCmd the result is the error
  result, and nothing was parsed; otherwise the result is the error result when the
  tokenizer rejected a character of the line, else OK when no sub-command ran, else the
  result of the last sub-command that ran. Every sub-command before the last one that
  ran is short and did not return the error result: the chain stops at the first error
  and after a long command. When the tokenizer rejected a character, no sub-command
  that ran had returned the error result.
\<close>

theorem at_line_result:
  assumes "processAtCommand hook cmd m = Inr (r, m')"
  shows "r = (if status m \<noteq> StatusIdle \<and> status m \<noteq> StatusConnectedCmd then RetCodeError
              else if malformed hook cmd m then RetCodeError
              else if subCommandResults hook cmd m = [] then RetCodeOk
              else last (subCommandResults hook cmd m))
         \<and> chainOk (butlast (subCommands hook cmd m))
         \<and> (malformed hook cmd m \<longrightarrow> RetCodeError \<notin> set (subCommandResults hook cmd m))"
proof (cases "status m \<noteq> StatusIdle \<and> status m \<noteq> StatusConnectedCmd")
  case True
  with assms show ?thesis
    by (simp add: processAtCommand_def subCommands_def subCommandResults_def malformed_def
        chainOk_def)
next
  case False
  then obtain e c1 rs where loop: "atLoop hook cmd RetCodeOk [] m = Inr (e, c1, rs, m')"
    and r: "r = (if e then RetCodeError else c1)"
    using assms by (auto simp add: processAtCommand_def split: sum.splits)
  from atLoop_log [OF loop]
  have log: "chainOk (butlast rs)" "c1 = (if rs = [] then RetCodeOk else snd (last rs))"
    "e \<longrightarrow> list_all (\<lambda>(t, r). r \<noteq> RetCodeError) rs"
    by auto
  have sub: "subCommands hook cmd m = rs" "malformed hook cmd m = e"
    using False loop by (auto simp add: subCommands_def malformed_def)
  have "RetCodeError \<notin> set (map snd rs)" if e
    using log(3) that by (auto simp add: list_all_iff)
  then show ?thesis
    using False
    by (auto simp add: sub subCommandResults_def r log(2) log(1) last_map)
qed

text \<open>
  The line \<open>E0E5E1\<close> on the example modem: \<open>E0\<close> succeeds, \<open>E5\<close> fails and ends the
  chain, \<open>E1\<close> never runs; the line reports the error and echo stays off.
\<close>

theorem at_line_result_witness:
  "processAtCommand None ''E0E5E1'' exampleModem
     = Inr (RetCodeError, exampleModem\<lparr>echo := False\<rparr>)
   \<and> subCommandResults None ''E0E5E1'' exampleModem = [RetCodeOk, RetCodeError]
   \<and> \<not> malformed None ''E0E5E1'' exampleModem"
proof -
  have run: "processAtCommand None ''E0E5E1'' exampleModem
      = Inr (RetCodeError, exampleModem\<lparr>echo := False\<rparr>)"
    by (simp add: line_defs exampleModem_def)
  have sub: "subCommandResults None ''E0E5E1'' exampleModem = [RetCodeOk, RetCodeError]"
    by (simp add: subCommandResults_def subCommands_def line_defs exampleModem_def)
  have mal: "\<not> malformed None ''E0E5E1'' exampleModem"
    by (simp add: malformed_def line_defs exampleModem_def)
  show ?thesis
    using at_line_result [OF run] run sub mal by simp
qed

text \<open>
  Claim C7 as stated fails: in the line \<open>E0\<close> followed by a space, the one sub-command
  that runs returns OK and switches echo off, none returns the error result, and the
  line reports the error result, because the space is not a command name.
\<close>

theorem at_line_result_counterexample:
  "processAtCommand None ''E0 '' exampleModem = Inr (RetCodeError, exampleModem\<lparr>echo := False\<rparr>)
   \<and> subCommandResults None ''E0 '' exampleModem = [RetCodeOk]"
  by (simp add: subCommandResults_def subCommands_def line_defs exampleModem_def)

subsection \<open>Line endings\<close>

lemma printRetCode_framed:
  "ret \<noteq> RetCodeSilent \<Longrightarrow>
     \<exists>s. ttyOut (printRetCode ret m) = ttyOut m @ cr m @ s @ cr m"
  by (simp add: printRetCode_def ttyWriteStr_def Let_def)

text \<open>
  Claim C8 says that every emitted line has the current line ending on both sides. A
  result code has (\<open>printRetCode_framed\<close>). The answer to a register query has not:
  \<^verbatim>\<open>processCommand\<close> writes \<^verbatim>\<open>m.cr()\<close> in front of the digits and a fixed carriage
  return and line feed behind them. On the example modem switched to the terse form by
  the line \<open>V0\<close>, where the line ending is a carriage return alone, the line \<open>S5?\<close>
  writes a carriage return, \<open>000\<close>, and then carriage return and line feed.
\<close>

theorem register_query_terse:
  "processAtCommand None ''V0'' exampleModem = Inr (RetCodeOk, exampleModem\<lparr>shortForm := True\<rparr>) \<and>
   cr (exampleModem\<lparr>shortForm := True\<rparr>) = [CR] \<and>
   processAtCommand None ''S5?'' (exampleModem\<lparr>shortForm := True\<rparr>) =
     Inr (RetCodeOk, exampleModem\<lparr>shortForm := True, ttyOut := [CR] @ ''000'' @ [CR, LF]\<rparr>)"
  by (simp add: line_defs fmt03d_0 ttyWriteStr_def cr_def exampleModem_def)

subsection \<open>The edit buffer\<close>

text \<open>
  Claim C9, as the code has it. In command-entry mode, in a status other than Connected
  and Dialing, a byte that arrives when the edit buffer holds 100 characters (or more,
  which the read task never lets happen), and that
  is neither delete nor carriage return, changes nothing: the buffer, the other
  variables of the read task and the modem are as before, so the byte is not part of
  the command line and nothing is written to the terminal, whether echo is on or off.
\<close>

theorem entry_buffer_full:
  "status m \<noteq> StatusConnected \<Longrightarrow> status m \<noteq> StatusDialing \<Longrightarrow> atFlag ts \<Longrightarrow>
   100 \<le> length (buffer ts) \<Longrightarrow> b \<noteq> CHR 0x7F \<Longrightarrow> b \<noteq> CR \<Longrightarrow>
     ttyReadByte hook b ts m = Inr (ts, m)"
  by (simp add: ttyReadByte_def)

theorem entry_buffer_full_witness:
  "ttyReadByte None (CHR ''z'')
      \<lparr>aFlag = False, atFlag = True, buffer = replicate 100 (CHR ''x''), lastCmd = []\<rparr>
      (exampleModem\<lparr>echo := False\<rparr>)
     = Inr (\<lparr>aFlag = False, atFlag = True, buffer = replicate 100 (CHR ''x''), lastCmd = []\<rparr>,
            exampleModem\<lparr>echo := False\<rparr>)"
  using entry_buffer_full [of "exampleModem\<lparr>echo := False\<rparr>"
      "\<lparr>aFlag = False, atFlag = True, buffer = replicate 100 (CHR ''x''), lastCmd = []\<rparr>"
      "CHR ''z''" None]
  by (simp add: status_def exampleModem_def)

text \<open>
  Claim C9 as stated fails: with echo on and 100 characters in the buffer, the printable
  byte \<open>y\<close> leaves the modem as it was, with nothing written to the terminal.
\<close>

theorem entry_buffer_full_counterexample:
  "echo exampleModem \<and> IsPrint (CHR ''y'') \<and> ttyOut exampleModem = [] \<and>
   ttyReadByte None (CHR ''y'')
      \<lparr>aFlag = False, atFlag = True, buffer = replicate 100 (CHR ''x''), lastCmd = []\<rparr>
      exampleModem
     = Inr (\<lparr>aFlag = False, atFlag = True, buffer = replicate 100 (CHR ''x''), lastCmd = []\<rparr>,
            exampleModem)"
  by (simp add: ttyReadByte_def status_def exampleModem_def byte_defs)

subsection \<open>An omitted numeric argument\<close>

text \<open>
  Claim C10. With no hook, a command without digits is the command with the argument 0:
  \<^verbatim>\<open>processCommand\<close> gives the same for the empty argument and for \<open>0\<close>, whatever
  the command. In a status where lines are processed, the line \<open>E\<close> switches echo off
  and returns OK, the line \<open>V\<close> selects the terse form and returns OK, and the line
  \<open>S?\<close> prints register 0 (0 when it was never set) and returns OK.
\<close>

theorem omitted_number_is_zero:
  assumes "status m = StatusIdle \<or> status m = StatusConnectedCmd"
  shows "processAtCommand None ''E'' m = Inr (RetCodeOk, m\<lparr>echo := False\<rparr>) \<and>
         processAtCommand None ''V'' m = Inr (RetCodeOk, m\<lparr>shortForm := True\<rparr>) \<and>
         processAtCommand None ''S?'' m =
           Inr (RetCodeOk,
                m\<lparr>ttyOut := ttyOut m @ cr m
                       @ fmt03d (case sregs m 0 of None \<Rightarrow> 0 | Some x \<Rightarrow> x) @ [CR, LF]\<rparr>) \<and>
         processCommand None c [] asg qry val m = processCommand None c ''0'' asg qry val m"
  using assms
  by (auto simp add: line_defs ttyWriteStr_def)

theorem omitted_number_is_zero_witness:
  "status exampleModem = StatusIdle \<and>
   processAtCommand None ''E'' exampleModem = Inr (RetCodeOk, exampleModem\<lparr>echo := False\<rparr>) \<and>
   processAtCommand None ''V'' exampleModem = Inr (RetCodeOk, exampleModem\<lparr>shortForm := True\<rparr>) \<and>
   processAtCommand None ''S?'' exampleModem =
     Inr (RetCodeOk, exampleModem\<lparr>ttyOut := [CR, LF] @ ''000'' @ [CR, LF]\<rparr>)"
proof -
  have idle: "status exampleModem = StatusIdle \<or> status exampleModem = StatusConnectedCmd"
    by (simp add: status_def exampleModem_def)
  have out: "ttyOut exampleModem @ cr exampleModem
       @ fmt03d (case sregs exampleModem 0 of None \<Rightarrow> 0 | Some x \<Rightarrow> x) @ [CR, LF]
     = [CR, LF] @ ''000'' @ [CR, LF]"
    by (simp add: exampleModem_def cr_def fmt03d_0)
  show ?thesis
    using omitted_number_is_zero [OF idle, of "[]" False False "[]"]
    by (simp add: out) (simp add: status_def exampleModem_def)
qed

end
